theory Spec2Isabelle
  imports Complex_Main "HOL-Library.Word"
begin

section \<open>Values, exceptions and the process environment\<close>

text \<open>
  Identifiers are the 128-bit values of \<^verbatim>\<open>uuid.UUID\<close>; a \<^verbatim>\<open>datetime\<close> is a
  number of microseconds since the epoch, in UTC; an \<^verbatim>\<open>asyncpg.Pool\<close> object is
  represented by its object identity.
\<close>

type_synonym uuid = "128 word"
type_synonym datetime = nat
type_synonym pool = nat

text \<open>
  Exceptions are values. The first two classes are raised by the repository's own code,
  \<^verbatim>\<open>UnboundLocalError\<close> by the interpreter, the others by the asyncpg driver.
\<close>

datatype exn_class =
    RuntimeError
  | ConnectionRefusedError
  | UnboundLocalError
  | InterfaceError
  | UniqueViolationError
  | DataError
  | InvalidRowCountInLimitClauseError
  | DriverError

datatype error = Error (err_class: exn_class) (err_msg: string)

text \<open>A row of the relation \<^verbatim>\<open>memories (id, text, created_at, embedding)\<close>.\<close>

record memory_row =
  row_id :: uuid
  row_text :: string
  row_created_at :: datetime
  row_embedding :: "real list option"

text \<open>
  Everything the code reads or writes outside its own arguments:
  \<^item> \<open>module_pool\<close> is the module-level variable \<^verbatim>\<open>_pool\<close> of \<^verbatim>\<open>db/pool.py\<close>;
  \<^item> \<open>closed_pools\<close> are the pool objects on which \<^verbatim>\<open>close()\<close> has completed,
    \<open>next_pool\<close> the identity of the next pool object to be created;
  \<^item> \<open>environ\<close> is \<^verbatim>\<open>os.environ\<close>;
  \<^item> \<open>create_fault dsn min_size max_size\<close> is the exception with which
    \<^verbatim>\<open>asyncpg.create_pool\<close> fails for these arguments (\<open>None\<close>: it succeeds);
  \<^item> \<open>conn_fault p\<close> is the connection-level exception (connection loss, pool
    exhaustion, timeout) the driver raises for a statement sent through pool \<open>p\<close>
    (\<open>None\<close>: the statement reaches the server);
  \<^item> \<open>memories\<close> is the content of the relation, in insertion order;
  \<^item> \<open>fts_match doc q\<close> stands for
    \<^verbatim>\<open>to_tsvector('english', doc) @@ websearch_to_tsquery('english', q)\<close> and
    \<open>ts_rank_cd doc q\<close> for the rank the server computes for them;
  \<^item> \<open>clock\<close> is the UTC time, \<open>uuid_source\<close> and \<open>uuid_calls\<close> the values
    \<^verbatim>\<open>uuid.uuid4()\<close> returns and how many have been drawn;
  \<^item> \<open>stdout\<close> collects the lines written by \<^verbatim>\<open>print\<close>.
\<close>

record world =
  module_pool :: "pool option"
  closed_pools :: "pool list"
  next_pool :: nat
  environ :: "string \<Rightarrow> string option"
  create_fault :: "string \<Rightarrow> int \<Rightarrow> int \<Rightarrow> error option"
  conn_fault :: "pool \<Rightarrow> error option"
  memories :: "memory_row list"
  fts_match :: "string \<Rightarrow> string \<Rightarrow> bool"
  ts_rank_cd :: "string \<Rightarrow> string \<Rightarrow> real"
  clock :: nat
  uuid_source :: "nat \<Rightarrow> uuid"
  uuid_calls :: nat
  stdout :: "string list"

definition print :: "string \<Rightarrow> world \<Rightarrow> world" where
  "print s w = w\<lparr>stdout := stdout w @ [s]\<rparr>"

definition getenv :: "string \<Rightarrow> string \<Rightarrow> world \<Rightarrow> string" where
  "getenv k dflt w = (case environ w k of None \<Rightarrow> dflt | Some v \<Rightarrow> v)"

definition uuid4 :: "world \<Rightarrow> uuid \<times> world" where
  "uuid4 w = (uuid_source w (uuid_calls w), w\<lparr>uuid_calls := Suc (uuid_calls w)\<rparr>)"

definition utcnow :: "world \<Rightarrow> datetime" where
  "utcnow w = clock w"

text \<open>Time passing between two calls: the clock never runs backwards.\<close>

definition advance :: "nat \<Rightarrow> world \<Rightarrow> world" where
  "advance d w = w\<lparr>clock := clock w + d\<rparr>"

section \<open>The driver: pools\<close>

text \<open>
  \<^verbatim>\<open>asyncpg.create_pool(dsn=..., min_size=..., max_size=...)\<close>: either raises, or returns
  a pool object that did not exist before.
\<close>

definition create_pool :: "string \<Rightarrow> int \<Rightarrow> int \<Rightarrow> world \<Rightarrow> (error + pool) \<times> world" where
  "create_pool dsn min_size max_size w =
     (case create_fault w dsn min_size max_size of
        Some e \<Rightarrow> (Inl e, w)
      | None \<Rightarrow> (Inr (next_pool w), w\<lparr>next_pool := Suc (next_pool w)\<rparr>))"

definition pool_close :: "pool \<Rightarrow> world \<Rightarrow> world" where
  "pool_close p w = w\<lparr>closed_pools := p # closed_pools w\<rparr>"

section \<open>db/pool.py\<close>

text \<open>Python truthiness of an \<^verbatim>\<open>Optional[str]\<close>: \<^verbatim>\<open>None\<close> and \<^verbatim>\<open>""\<close> are false.\<close>

fun truthy :: "string option \<Rightarrow> bool" where
  "truthy None = False"
| "truthy (Some s) = (s \<noteq> [])"

text \<open>
  The \<^verbatim>\<open>except Exception as e\<close> handler of \<^verbatim>\<open>init_db_pool\<close>: print, then raise
  \<^verbatim>\<open>ConnectionRefusedError\<close>.
\<close>

definition init_failed :: "error \<Rightarrow> world \<Rightarrow> (error + unit) \<times> world" where
  "init_failed e w =
     (Inl (Error ConnectionRefusedError ''Failed to connect to database''),
      print (''Failed to initialize database pool: '' @ err_msg e) w)"

text \<open>
  \<^verbatim>\<open>init_db_pool(dsn, min_size, max_size)\<close>. The locals \<^verbatim>\<open>db_name\<close> and
  \<^verbatim>\<open>db_host\<close> are assigned only on the branch that reads the environment; they are
  modelled as options, \<open>None\<close> being "unbound". The \<^verbatim>\<open>print\<close> after
  \<^verbatim>\<open>create_pool\<close> reads both inside the \<^verbatim>\<open>try\<close> block, after \<^verbatim>\<open>_pool\<close> has
  been assigned; reading an unbound local raises \<^verbatim>\<open>UnboundLocalError\<close>, which the
  handler catches (its message is abbreviated here to the variable's name).
\<close>

definition init_db_pool :: "string option \<Rightarrow> int \<Rightarrow> int \<Rightarrow> world \<Rightarrow> (error + unit) \<times> world" where
  "init_db_pool dsn min_size max_size w =
     (if module_pool w \<noteq> None
      then (Inl (Error RuntimeError ''Database pool already initialized.''), w)
      else
        let (conn_dsn, db_name, db_host) =
              (if truthy dsn then (the dsn, None, None)
               else
                 let db_user = getenv ''DB_USER'' ''postgres'' w;
                     db_password = getenv ''DB_PASSWORD'' ''password'' w;
                     db_host = getenv ''DB_HOST'' ''localhost'' w;
                     db_port = getenv ''DB_PORT'' ''5432'' w;
                     db_name = getenv ''DB_NAME'' ''memoria_db'' w
                 in (''postgresql://'' @ db_user @ '':'' @ db_password @ ''@'' @ db_host
                       @ '':'' @ db_port @ ''/'' @ db_name,
                     Some db_name, Some db_host))
        in case create_pool conn_dsn min_size max_size w of
             (Inl e, w1) \<Rightarrow> init_failed e w1
           | (Inr p, w1) \<Rightarrow>
               let w2 = w1\<lparr>module_pool := Some p\<rparr>
               in (case db_name of
                     None \<Rightarrow> init_failed (Error UnboundLocalError ''db_name'') w2
                   | Some n \<Rightarrow>
                       (case db_host of
                          None \<Rightarrow> init_failed (Error UnboundLocalError ''db_host'') w2
                        | Some h \<Rightarrow>
                            (Inr (), print (''Database pool initialized for '' @ n @ '' on '' @ h) w2))))"

definition get_db_pool :: "world \<Rightarrow> error + pool" where
  "get_db_pool w =
     (case module_pool w of
        None \<Rightarrow> Inl (Error RuntimeError ''Database pool not initialized. Call init_db_pool() first.'')
      | Some p \<Rightarrow> Inr p)"

definition close_db_pool :: "world \<Rightarrow> world" where
  "close_db_pool w =
     (case module_pool w of
        None \<Rightarrow> w
      | Some p \<Rightarrow> print ''Database pool closed.'' ((pool_close p w)\<lparr>module_pool := None\<rparr>))"

section \<open>The driver: statements\<close>

text \<open>
  A statement is the function it computes on the relation: it fails, or yields the new
  content of the relation and its result rows. A pool method (\<^verbatim>\<open>execute\<close>,
  \<^verbatim>\<open>fetch\<close>, \<^verbatim>\<open>fetchrow\<close>) raises \<^verbatim>\<open>InterfaceError\<close> on a closed pool,
  raises the connection-level fault if there is one, and otherwise runs the statement,
  which is atomic: a failing statement leaves the relation as it was.
\<close>

type_synonym 'r statement = "world \<Rightarrow> error + memory_row list \<times> 'r list"

definition pool_run :: "pool \<Rightarrow> 'r statement \<Rightarrow> world \<Rightarrow> (error + 'r list) \<times> world" where
  "pool_run p stmt w =
     (if p \<in> set (closed_pools w) then (Inl (Error InterfaceError ''pool is closed''), w)
      else case conn_fault w p of
             Some e \<Rightarrow> (Inl e, w)
           | None \<Rightarrow>
               (case stmt w of
                  Inl e \<Rightarrow> (Inl e, w)
                | Inr (tbl, rows) \<Rightarrow> (Inr rows, w\<lparr>memories := tbl\<rparr>)))"

text \<open>\<^verbatim>\<open>pool.execute\<close> returns the command status, which the code ignores.\<close>

definition pool_execute :: "pool \<Rightarrow> 'r statement \<Rightarrow> world \<Rightarrow> (error + unit) \<times> world" where
  "pool_execute p stmt w =
     (case pool_run p stmt w of (Inl e, w1) \<Rightarrow> (Inl e, w1) | (Inr rows, w1) \<Rightarrow> (Inr (), w1))"

definition pool_fetch :: "pool \<Rightarrow> 'r statement \<Rightarrow> world \<Rightarrow> (error + 'r list) \<times> world" where
  "pool_fetch p stmt w = pool_run p stmt w"

definition pool_fetchrow :: "pool \<Rightarrow> 'r statement \<Rightarrow> world \<Rightarrow> (error + 'r option) \<times> world" where
  "pool_fetchrow p stmt w =
     (case pool_run p stmt w of
        (Inl e, w1) \<Rightarrow> (Inl e, w1)
      | (Inr rows, w1) \<Rightarrow> (Inr (case rows of [] \<Rightarrow> None | r # _ \<Rightarrow> Some r), w1))"

section \<open>The three statements of memory/manager.py\<close>

text \<open>
  Modelled from the spec: the schema of the relation \<^verbatim>\<open>memories\<close> is not part of the
  repository. The spec declares the column \<^verbatim>\<open>id\<close> a unique key, so an insert whose
  id is already present is rejected by the server.
\<close>

definition unique_key_ok :: "uuid \<Rightarrow> memory_row list \<Rightarrow> bool" where
  "unique_key_ok i tbl = (i \<notin> set (map row_id tbl))"

text \<open>
  \<^verbatim>\<open>INSERT INTO memories (id, text, created_at, embedding) VALUES ($1, $2, $3, $4)
  RETURNING id;\<close>
\<close>

definition sql_insert ::
  "uuid \<Rightarrow> string \<Rightarrow> datetime \<Rightarrow> real list option \<Rightarrow> uuid statement" where
  "sql_insert i t c e w =
     (if unique_key_ok i (memories w)
      then Inr (memories w @ [\<lparr>row_id = i, row_text = t, row_created_at = c, row_embedding = e\<rparr>], [i])
      else Inl (Error UniqueViolationError ''duplicate key value violates unique constraint''))"

text \<open>\<^verbatim>\<open>SELECT id, text, created_at, embedding FROM memories WHERE id = $1;\<close>\<close>

definition sql_select_by_id :: "uuid \<Rightarrow> memory_row statement" where
  "sql_select_by_id i w = Inr (memories w, filter (\<lambda>r. row_id r = i) (memories w))"

text \<open>
  \<^verbatim>\<open>SELECT id, text, created_at, ts_rank_cd(to_tsvector('english', text),
  websearch_to_tsquery('english', $1)) AS score FROM memories
  WHERE to_tsvector('english', text) @@ websearch_to_tsquery('english', $1)
  ORDER BY score DESC LIMIT $2;\<close>

  The parameter of \<^verbatim>\<open>LIMIT\<close> is a 64-bit integer: the driver refuses a Python
  integer outside that range, and the server refuses a negative limit. The order among
  rows of equal score is the server's choice; the model keeps them in insertion order.
\<close>

record scored_row =
  sr_id :: uuid
  sr_text :: string
  sr_created_at :: datetime
  sr_score :: real

definition scored :: "world \<Rightarrow> string \<Rightarrow> memory_row \<Rightarrow> scored_row" where
  "scored w q r =
     \<lparr>sr_id = row_id r, sr_text = row_text r, sr_created_at = row_created_at r,
      sr_score = ts_rank_cd w (row_text r) q\<rparr>"

definition order_by_score_desc :: "scored_row list \<Rightarrow> scored_row list" where
  "order_by_score_desc rows = sort_key (\<lambda>r. - sr_score r) rows"

definition sql_search :: "string \<Rightarrow> int \<Rightarrow> scored_row statement" where
  "sql_search q k w =
     (if k < - (2 ^ 63) \<or> 2 ^ 63 \<le> k
      then Inl (Error DataError ''invalid input for query argument $2 (value out of int64 range)'')
      else if k < 0
      then Inl (Error InvalidRowCountInLimitClauseError ''LIMIT must not be negative'')
      else Inr (memories w,
                take (nat k)
                  (order_by_score_desc
                     (map (scored w q) (filter (\<lambda>r. fts_match w (row_text r) q) (memories w))))))"

section \<open>memory/schemas.py\<close>

record Memory =
  m_text :: string
  m_id :: uuid
  m_created_at :: datetime
  m_embedding :: "real list option"

record MemoryQueryResponse =
  q_id :: uuid
  q_text :: string
  q_created_at :: datetime
  q_score :: "real option"

section \<open>memory/manager.py\<close>

text \<open>The only attribute of a \<^verbatim>\<open>MemoryManager\<close> is \<^verbatim>\<open>self._pool\<close>.\<close>

record MemoryManager =
  self_pool :: "pool option"

definition MemoryManager_init :: "pool option \<Rightarrow> MemoryManager" where
  "MemoryManager_init p = \<lparr>self_pool = p\<rparr>"

text \<open>\<^verbatim>\<open>MemoryManager._get_pool\<close>: the result and the manager afterwards.\<close>

definition get_pool :: "MemoryManager \<Rightarrow> world \<Rightarrow> (error + pool) \<times> MemoryManager" where
  "get_pool m w =
     (case self_pool m of
        None \<Rightarrow>
          (case get_db_pool w of
             Inl e \<Rightarrow> (Inl e, m)
           | Inr p \<Rightarrow> (Inr p, m\<lparr>self_pool := Some p\<rparr>))
      | Some p \<Rightarrow> (Inr p, m))"

text \<open>
  Each operation returns its result (or the exception it raises), the manager and the
  world afterwards. \<^verbatim>\<open>_get_pool\<close> is called before the \<^verbatim>\<open>try\<close> block, so its
  exception propagates without a \<^verbatim>\<open>print\<close>.
\<close>

definition add_memory ::
  "MemoryManager \<Rightarrow> string \<Rightarrow> world \<Rightarrow> (error + uuid) \<times> MemoryManager \<times> world" where
  "add_memory m txt w =
     (case get_pool m w of
        (Inl e, m1) \<Rightarrow> (Inl e, m1, w)
      | (Inr p, m1) \<Rightarrow>
          let (memory_id, w1) = uuid4 w
          in (case pool_execute p (sql_insert memory_id txt (utcnow w1) None) w1 of
                (Inr u, w2) \<Rightarrow> (Inr memory_id, m1, w2)
              | (Inl e, w2) \<Rightarrow> (Inl e, m1, print (''Error adding memory: '' @ err_msg e) w2)))"

definition to_response :: "scored_row \<Rightarrow> MemoryQueryResponse" where
  "to_response row =
     \<lparr>q_id = sr_id row, q_text = sr_text row, q_created_at = sr_created_at row,
      q_score = Some (sr_score row)\<rparr>"

definition search_memories ::
  "MemoryManager \<Rightarrow> string \<Rightarrow> int \<Rightarrow> world
     \<Rightarrow> (error + MemoryQueryResponse list) \<times> MemoryManager \<times> world" where
  "search_memories m query_text top_k w =
     (case get_pool m w of
        (Inl e, m1) \<Rightarrow> (Inl e, m1, w)
      | (Inr p, m1) \<Rightarrow>
          (case pool_fetch p (sql_search query_text top_k) w of
             (Inr rows, w1) \<Rightarrow> (Inr (map to_response rows), m1, w1)
           | (Inl e, w1) \<Rightarrow> (Inl e, m1, print (''Error searching memories: '' @ err_msg e) w1)))"

definition to_memory :: "memory_row \<Rightarrow> Memory" where
  "to_memory row =
     \<lparr>m_text = row_text row, m_id = row_id row, m_created_at = row_created_at row,
      m_embedding = row_embedding row\<rparr>"

definition get_memory_by_id ::
  "MemoryManager \<Rightarrow> uuid \<Rightarrow> world \<Rightarrow> (error + Memory option) \<times> MemoryManager \<times> world" where
  "get_memory_by_id m memory_id w =
     (case get_pool m w of
        (Inl e, m1) \<Rightarrow> (Inl e, m1, w)
      | (Inr p, m1) \<Rightarrow>
          (case pool_fetchrow p (sql_select_by_id memory_id) w of
             (Inr (Some row), w1) \<Rightarrow> (Inr (Some (to_memory row)), m1, w1)
           | (Inr None, w1) \<Rightarrow> (Inr None, m1, w1)
           | (Inl e, w1) \<Rightarrow> (Inl e, m1, print (''Error getting memory by ID: '' @ err_msg e) w1)))"

section \<open>Concrete processes\<close>

text \<open>
  A process that has not initialised anything, whose server accepts every connection and
  ranks a document by its length; the process after \<^verbatim>\<open>startup()\<close> of
  \<^verbatim>\<open>main.py\<close>; and variants of it used to exercise the theorems below.
\<close>

definition fresh_process :: world where
  "fresh_process =
     \<lparr>module_pool = None, closed_pools = [], next_pool = 0, environ = (\<lambda>k. None),
      create_fault = (\<lambda>dsn min_size max_size. None), conn_fault = (\<lambda>p. None), memories = [],
      fts_match = (\<lambda>doc q. True), ts_rank_cd = (\<lambda>doc q. real (length doc)), clock = 1000,
      uuid_source = (\<lambda>n. of_nat n + 7), uuid_calls = 0, stdout = []\<rparr>"

definition started :: world where
  "started = snd (init_db_pool None 1 10 fresh_process)"

definition after_add :: world where
  "after_add =
     started\<lparr>uuid_calls := 1,
       memories := [\<lparr>row_id = 7, row_text = ''buy milk'', row_created_at = 1000,
                     row_embedding = None\<rparr>]\<rparr>"

definition two_memories :: world where
  "two_memories =
     started\<lparr>memories :=
       [\<lparr>row_id = 7, row_text = ''abc'', row_created_at = 1000, row_embedding = None\<rparr>,
        \<lparr>row_id = 8, row_text = ''buy milk'', row_created_at = 1001, row_embedding = None\<rparr>]\<rparr>"



text \<open>A pool created by the caller itself, as a test fixture does: the module's pool stays unset.\<close>

definition own_pool :: world where
  "own_pool = snd (create_pool ''postgresql://localhost/test'' 1 10 fresh_process)"

definition not_initialized :: error where
  "not_initialized =
     Error RuntimeError ''Database pool not initialized. Call init_db_pool() first.''"

section \<open>Basic facts\<close>

lemmas pool_defs = Let_def init_db_pool_def create_pool_def init_failed_def get_db_pool_def
  close_db_pool_def pool_close_def print_def getenv_def


lemma started_eq:
  "started = fresh_process\<lparr>next_pool := 1, module_pool := Some 0,
      stdout := [''Database pool initialized for memoria_db on localhost'']\<rparr>"
  by (simp add: started_def fresh_process_def pool_defs)

subsection \<open>The pool a manager works on\<close>

lemma get_pool_pinned: "self_pool m = Some p \<Longrightarrow> get_pool m w = (Inr p, m)"
  by (simp add: get_pool_def)

lemma get_pool_result_pinned: "get_pool m w = (Inr p, m1) \<Longrightarrow> self_pool m1 = Some p"
  by (auto simp: get_pool_def get_db_pool_def split: option.splits)




subsection \<open>Initialisation with a connection string\<close>

text \<open>
  With a non-empty \<^verbatim>\<open>dsn\<close> the call raises whatever the driver does; when the driver
  succeeds, the module's pool has been assigned by then.
\<close>

lemma init_db_pool_dsn_always_fails:
  assumes "module_pool w = None" and "truthy dsn"
  shows "fst (init_db_pool dsn min_size max_size w) =
           Inl (Error ConnectionRefusedError ''Failed to connect to database'')"
  using assms by (simp add: pool_defs split: option.splits)

lemma init_db_pool_dsn_leaves_pool_set:
  assumes "module_pool w = None" and "truthy dsn"
    and "create_fault w (the dsn) min_size max_size = None"
  shows "module_pool (snd (init_db_pool dsn min_size max_size w)) = Some (next_pool w)"
  using assms by (simp add: pool_defs)

text \<open>When the driver itself fails to create the pool, the module's pool stays unset.\<close>

lemma init_db_pool_create_failure_atomic:
  assumes "module_pool w = None" and "\<And>d. create_fault w d min_size max_size = Some (e d)"
  shows "fst (init_db_pool dsn min_size max_size w) =
           Inl (Error ConnectionRefusedError ''Failed to connect to database'') \<and>
         module_pool (snd (init_db_pool dsn min_size max_size w)) = None"
  using assms by (simp add: pool_defs)

text \<open>Without a \<^verbatim>\<open>dsn\<close> the environment branch binds both locals and the call succeeds.\<close>

lemma init_db_pool_env_succeeds:
  assumes "module_pool w = None" and "\<not> truthy dsn"
    and "\<And>d. create_fault w d min_size max_size = None"
  shows "fst (init_db_pool dsn min_size max_size w) = Inr () \<and>
         module_pool (snd (init_db_pool dsn min_size max_size w)) = Some (next_pool w)"
  using assms by (simp add: pool_defs)

subsection \<open>Statements\<close>

lemma select_after_insert:
  assumes "i \<notin> set (map row_id tbl)"
  shows "filter (\<lambda>r. row_id r = i)
           (tbl @ [\<lparr>row_id = i, row_text = t, row_created_at = c, row_embedding = e\<rparr>])
         = [\<lparr>row_id = i, row_text = t, row_created_at = c, row_embedding = e\<rparr>]"
proof -
  have "filter (\<lambda>r. row_id r = i) tbl = []"
    using assms by (auto simp: filter_empty_conv)
  then show ?thesis by simp
qed

text \<open>What a successful \<^verbatim>\<open>add_memory\<close> tells about the call.\<close>

lemma add_memory_success:
  assumes "add_memory m txt w = (Inr memory_id, m1, w1)"
  shows "\<exists>p. get_pool m w = (Inr p, m1) \<and> p \<notin> set (closed_pools w) \<and> conn_fault w p = None \<and>
             memory_id = uuid_source w (uuid_calls w) \<and>
             memory_id \<notin> set (map row_id (memories w)) \<and>
             w1 = w\<lparr>uuid_calls := Suc (uuid_calls w),
                    memories := memories w @ [\<lparr>row_id = memory_id, row_text = txt,
                       row_created_at = clock w, row_embedding = None\<rparr>]\<rparr>"
  using assms
  by (auto simp: add_memory_def pool_execute_def pool_run_def sql_insert_def unique_key_ok_def
      uuid4_def utcnow_def
      split: prod.splits sum.splits option.splits if_splits)


lemma add_memory_started:
  "add_memory (MemoryManager_init None) ''buy milk'' started =
     (Inr 7, \<lparr>self_pool = Some 0\<rparr>, after_add)"
  by (simp add: after_add_def started_eq fresh_process_def add_memory_def get_pool_def
      get_db_pool_def MemoryManager_init_def uuid4_def utcnow_def pool_execute_def pool_run_def
      sql_insert_def unique_key_ok_def)

lemma get_memory_by_id_frame: "memories (snd (snd (get_memory_by_id m i w))) = memories w"
  by (simp add: get_memory_by_id_def pool_fetchrow_def pool_run_def sql_select_by_id_def print_def
      split: prod.splits sum.splits option.splits list.splits)

lemma search_memories_frame: "memories (snd (snd (search_memories m q k w))) = memories w"
  by (simp add: search_memories_def pool_fetch_def pool_run_def sql_search_def print_def
      split: prod.splits sum.splits option.splits)

subsection \<open>Ordering of the search result\<close>






section \<open>The claims\<close>

text \<open>
  C1 (round trip). When \<open>add_memory\<close> returns an id, \<open>get_memory_by_id\<close> with that id,
  called at any later time on the manager as \<open>add_memory\<close> left it, returns a record with
  that id and the text that was added, whose \<open>created_at\<close> is no earlier than the clock
  at the call of \<open>add_memory\<close> and no later than the clock at the lookup. The text need not
  even be non-empty.
\<close>

theorem add_then_get_round_trip:
  assumes "add_memory m txt w = (Inr memory_id, m1, w1)"
  shows "\<exists>mem. get_memory_by_id m1 memory_id (advance d w1) = (Inr (Some mem), m1, advance d w1) \<and>
           m_id mem = memory_id \<and> m_text mem = txt \<and>
           clock w \<le> m_created_at mem \<and> m_created_at mem \<le> clock (advance d w1)"
proof -
  from add_memory_success [OF assms] obtain p where
    gp: "get_pool m w = (Inr p, m1)" and
    open_p: "p \<notin> set (closed_pools w)" and ok: "conn_fault w p = None" and
    fresh: "memory_id \<notin> set (map row_id (memories w))" and
    w1: "w1 = w\<lparr>uuid_calls := Suc (uuid_calls w),
                    memories := memories w @ [\<lparr>row_id = memory_id, row_text = txt,
                       row_created_at = clock w, row_embedding = None\<rparr>]\<rparr>"
    by blast
  have pin: "get_pool m1 (advance d w1) = (Inr p, m1)"
    using gp by (intro get_pool_pinned get_pool_result_pinned)
  let ?row = "\<lparr>row_id = memory_id, row_text = txt, row_created_at = clock w,
               row_embedding = None\<rparr>"
  have sel: "filter (\<lambda>r. row_id r = memory_id) (memories (advance d w1)) = [?row]"
    using select_after_insert [OF fresh] by (simp add: w1 advance_def)
  have "get_memory_by_id m1 memory_id (advance d w1) =
          (Inr (Some (to_memory ?row)), m1, advance d w1)"
    using pin open_p ok sel
    by (simp add: get_memory_by_id_def pool_fetchrow_def pool_run_def sql_select_by_id_def
        w1 advance_def)
  then show ?thesis
    by (simp add: to_memory_def w1 advance_def)
qed

theorem add_then_get_round_trip_witness:
  "add_memory (MemoryManager_init None) ''buy milk'' started =
     (Inr 7, \<lparr>self_pool = Some 0\<rparr>, after_add) \<and>
   (\<exists>mem. get_memory_by_id \<lparr>self_pool = Some 0\<rparr> 7 (advance 5 after_add) =
             (Inr (Some mem), \<lparr>self_pool = Some 0\<rparr>, advance 5 after_add) \<and>
           m_id mem = 7 \<and> m_text mem = ''buy milk'' \<and>
           clock started \<le> m_created_at mem \<and>
           m_created_at mem \<le> clock (advance 5 after_add))"
  using add_memory_started add_then_get_round_trip [OF add_memory_started, of 5]
  by (rule conjI)



text \<open>
  C3 (not found is not an error). When the manager resolves an open pool without
  connection fault and no row of the relation has the id, \<open>get_memory_by_id\<close> returns
  \<open>None\<close>: no exception and no record, and the world is left as it was.
\<close>

theorem get_memory_by_id_not_found:
  assumes "get_pool m w = (Inr p, m1)"
    and "p \<notin> set (closed_pools w)" and "conn_fault w p = None"
    and "memory_id \<notin> set (map row_id (memories w))"
  shows "get_memory_by_id m memory_id w = (Inr None, m1, w)"
proof -
  have "filter (\<lambda>r. row_id r = memory_id) (memories w) = []"
    using assms(4) by (auto simp: filter_empty_conv)
  then show ?thesis
    using assms(1-3)
    by (simp add: get_memory_by_id_def pool_fetchrow_def pool_run_def sql_select_by_id_def)
qed

theorem get_memory_by_id_not_found_witness:
  "get_pool (MemoryManager_init None) two_memories = (Inr 0, \<lparr>self_pool = Some 0\<rparr>) \<and>
   0 \<notin> set (closed_pools two_memories) \<and> conn_fault two_memories 0 = None \<and>
   9 \<notin> set (map row_id (memories two_memories)) \<and>
   get_memory_by_id (MemoryManager_init None) 9 two_memories =
     (Inr None, \<lparr>self_pool = Some 0\<rparr>, two_memories)"
proof -
  have a: "get_pool (MemoryManager_init None) two_memories = (Inr 0, \<lparr>self_pool = Some 0\<rparr>)"
    by (simp add: two_memories_def started_eq fresh_process_def get_pool_def get_db_pool_def
        MemoryManager_init_def)
  have b: "0 \<notin> set (closed_pools two_memories)"
    by (simp add: two_memories_def started_eq fresh_process_def)
  have c: "conn_fault two_memories 0 = None"
    by (simp add: two_memories_def started_eq fresh_process_def)
  have d: "(9 :: uuid) \<notin> set (map row_id (memories two_memories))"
    by (simp add: two_memories_def)
  from get_memory_by_id_not_found [OF a b c d] a b c d show ?thesis by blast
qed

text \<open>
  C4 (double initialisation). When the module's pool is set, \<open>init_db_pool\<close> raises
  \<^verbatim>\<open>RuntimeError("Database pool already initialized.")\<close> and changes nothing: the pool,
  like the rest of the world, is the one from before.
\<close>

theorem init_db_pool_twice_rejected:
  "module_pool w = Some p \<Longrightarrow>
   init_db_pool dsn min_size max_size w =
     (Inl (Error RuntimeError ''Database pool already initialized.''), w)"
  by (simp add: init_db_pool_def)

theorem init_db_pool_twice_rejected_witness:
  "module_pool started = Some 0 \<and>
   init_db_pool None 1 10 started =
     (Inl (Error RuntimeError ''Database pool already initialized.''), started)"
proof -
  have h: "module_pool started = Some 0"
    by (simp add: started_eq)
  from h init_db_pool_twice_rejected [OF h] show ?thesis by simp
qed

text \<open>
  C5 (a failed initialisation leaves the pool unset). The code at a connection string
  that the driver accepts: the call raises \<^verbatim>\<open>ConnectionRefusedError\<close>, and the module's
  pool is set nevertheless.
\<close>

theorem init_db_pool_dsn_half_initialized:
  "module_pool fresh_process = None \<and>
   fst (init_db_pool (Some ''postgresql://u:p@h:5432/db'') 1 10 fresh_process) =
     Inl (Error ConnectionRefusedError ''Failed to connect to database'') \<and>
   module_pool (snd (init_db_pool (Some ''postgresql://u:p@h:5432/db'') 1 10 fresh_process)) =
     Some 0"
  by (simp add: fresh_process_def pool_defs)

text \<open>
  C6 (initialisation with a connection string succeeds). The code at a connection string
  for which \<open>create_pool\<close> succeeds: the pool object is created, and the call raises
  \<^verbatim>\<open>ConnectionRefusedError\<close> after printing that \<^verbatim>\<open>db_name\<close> could not be read.
\<close>

theorem init_db_pool_dsn_raises:
  "fst (create_pool ''postgresql://u:p@h:5432/db'' 1 10 fresh_process) = Inr 0 \<and>
   init_db_pool (Some ''postgresql://u:p@h:5432/db'') 1 10 fresh_process =
     (Inl (Error ConnectionRefusedError ''Failed to connect to database''),
      fresh_process\<lparr>next_pool := 1, module_pool := Some 0,
        stdout := [''Failed to initialize database pool: db_name'']\<rparr>)"
  by (simp add: fresh_process_def pool_defs)

text \<open>
  C7 (use before initialisation), as stated: every store operation fails with "not
  initialized" while the module's pool is unset. It fails for a manager that holds a pool
  of its own: one constructed with a pool finds nothing and reports not-found, and one
  that resolved the module's pool earlier gets the driver's "pool is closed" after
  \<open>close_db_pool\<close>.
\<close>

theorem not_initialized_counterexample:
  "module_pool own_pool = None \<and>
   fst (get_memory_by_id (MemoryManager_init (Some 0)) 7 own_pool) = Inr None \<and>
   module_pool (close_db_pool started) = None \<and>
   fst (get_memory_by_id \<lparr>self_pool = Some 0\<rparr> 7 (close_db_pool started)) =
     Inl (Error InterfaceError ''pool is closed'')"
  by (simp add: own_pool_def started_eq fresh_process_def pool_defs MemoryManager_init_def
      get_memory_by_id_def get_pool_def pool_fetchrow_def pool_run_def sql_select_by_id_def)

text \<open>
  C7, amended: while the module's pool is unset (never initialised, or cleared by
  \<open>close_db_pool\<close>), \<open>get_db_pool\<close> fails with the "not initialized"
  \<^verbatim>\<open>RuntimeError\<close>, and so does every store operation of a manager that holds no pool
  of its own, leaving manager and world unchanged.
\<close>

theorem not_initialized_without_pool:
  assumes "module_pool w = None"
  shows "get_db_pool w = Inl not_initialized \<and>
         (self_pool m = None \<longrightarrow>
            add_memory m txt w = (Inl not_initialized, m, w) \<and>
            search_memories m q k w = (Inl not_initialized, m, w) \<and>
            get_memory_by_id m i w = (Inl not_initialized, m, w)) \<and>
         module_pool (close_db_pool w') = None"
  using assms
  by (simp add: not_initialized_def get_db_pool_def add_memory_def search_memories_def
      get_memory_by_id_def get_pool_def close_db_pool_def pool_close_def print_def
      split: option.splits)

theorem not_initialized_without_pool_witness:
  "module_pool fresh_process = None \<and> self_pool (MemoryManager_init None) = None \<and>
   get_db_pool fresh_process = Inl not_initialized \<and>
   add_memory (MemoryManager_init None) ''buy milk'' fresh_process =
     (Inl not_initialized, MemoryManager_init None, fresh_process) \<and>
   search_memories (MemoryManager_init None) ''milk'' 5 fresh_process =
     (Inl not_initialized, MemoryManager_init None, fresh_process) \<and>
   get_memory_by_id (MemoryManager_init None) 7 fresh_process =
     (Inl not_initialized, MemoryManager_init None, fresh_process)"
proof -
  have a: "module_pool fresh_process = None" by (simp add: fresh_process_def)
  have b: "self_pool (MemoryManager_init None) = None" by (simp add: MemoryManager_init_def)
  from not_initialized_without_pool
         [OF a, of "MemoryManager_init None" "''buy milk''" "''milk''" 5 7]
    a b show ?thesis by blast
qed




text \<open>
  C9 (read-only queries). For every input and every world, \<open>get_memory_by_id\<close> and
  \<open>search_memories\<close> leave the relation \<open>memories\<close> as it was, and so do
  \<open>init_db_pool\<close> and \<open>close_db_pool\<close>; \<open>add_memory\<close> does change it.
\<close>

theorem queries_read_only:
  "memories (snd (snd (get_memory_by_id m i w))) = memories w \<and>
   memories (snd (snd (search_memories m q k w))) = memories w \<and>
   memories (snd (init_db_pool dsn min_size max_size w)) = memories w \<and>
   memories (close_db_pool w) = memories w \<and>
   memories (snd (snd (add_memory (MemoryManager_init None) ''buy milk'' started)))
     \<noteq> memories started"
proof -
  have "memories (snd (init_db_pool dsn min_size max_size w)) = memories w"
    by (simp add: pool_defs split: option.splits prod.splits)
  moreover have "memories (close_db_pool w) = memories w"
    by (simp add: pool_defs split: option.splits)
  moreover have "memories (snd (snd (add_memory (MemoryManager_init None) ''buy milk'' started)))
                   \<noteq> memories started"
  proof -
    have "memories started = []" by (simp add: started_eq fresh_process_def)
    then show ?thesis by (simp add: add_memory_started after_add_def)
  qed
  ultimately show ?thesis
    using get_memory_by_id_frame search_memories_frame by blast
qed



end
